theory Spec2Isabelle
  imports Complex_Main
begin

section \<open>Values, rows and page requests\<close>

text \<open>
  The table builders of the repository (package \<open>tables\<close>) configure descriptors through the
  admin framework's fluent interface. The framework itself is a dependency and not part of
  the repository; the part of its interface that the builders call is modelled below as
  plain records and update functions, following the parameter documentation written at every
  call site in the builders. Go strings are byte sequences, so the Chinese display labels
  appear as their UTF-8 bytes.
\<close>

text \<open>A Go \<open>interface{}\<close> value as it occurs in row maps: nil, a string or an integer.\<close>

datatype gvalue = GNil | GString string | GInt int

type_synonym row = "string \<rightharpoonup> gvalue"

text \<open>
  Modelled from the spec: the framework type \<open>parameter.Parameters\<close> is not declared in the
  repository; it is the normalized page request (page number, page size, sort field and
  direction, filter predicates).
\<close>

record Parameters =
  Page :: int
  PageSize :: int
  SortField :: string
  SortType :: string
  Filters :: "(string \<times> string \<times> string) list"

text \<open>A Go function either returns or panics; a panic is the left injection.\<close>

datatype panic = Panic string

type_synonym GetDataFn = "Parameters \<Rightarrow> panic + (row list \<times> int)"


text \<open>The argument of a post-submit filter (\<open>types.PostFieldModel\<close>).\<close>

record PostFieldModel =
  pfm_ID :: string
  pfm_Value :: "string list"
  pfm_Row :: "(string \<times> string) list"

type_synonym Values = "(string \<times> string list) list"

text \<open>Lines written to standard output by \<open>fmt.Println\<close>, kept as events with their operands.\<close>

datatype event =
    Println_PostFieldModel string PostFieldModel
  | Println_Values string Values

section \<open>Columns, form fields and panels\<close>

datatype DatabaseType = db_Int | db_Varchar | db_Tinyint | db_Timestamp | db_Date

datatype FormType =
    form_Default | form_Text | form_Number | form_Radio | form_SelectSingle
  | form_RichText | form_Datetime | form_DatetimeRange

datatype Layout = form_LayoutDefault | form_LayoutFilter

datatype EditType = editType_Text | editType_Switch | editType_Textarea | editType_Datetime

datatype FilterOperator = FilterOperatorLike

record FilterType =
  ft_FormType :: "FormType option"
  ft_Operator :: "FilterOperator option"

record Join =
  join_Field :: string
  join_JoinField :: string
  join_Table :: string

record Column =
  col_Head :: string
  col_Field :: string
  col_TypeName :: DatabaseType
  col_Sortable :: bool
  col_EditAble :: bool
  col_EditType :: EditType
  col_Filterable :: bool
  col_FilterTypes :: "FilterType list"
  col_Hide :: bool
  col_Joins :: "Join list"

record InfoPanel =
  info_FieldList :: "Column list"
  info_Table :: string
  info_Title :: string
  info_Description :: string
  info_FilterFormLayout :: Layout
  info_HideFilterArea :: bool
  info_GetDataFn :: "GetDataFn option"

record FormField =
  fld_Head :: string
  fld_Field :: string
  fld_TypeName :: DatabaseType
  fld_FormType :: FormType
  fld_NotAllowEdit :: bool
  fld_NotAllowAdd :: bool
  fld_Default :: string
  fld_EnableFileUpload :: bool
  fld_PostFilterFn :: "(PostFieldModel \<Rightarrow> event list \<times> gvalue) option"

record FormPanel =
  form_FieldList :: "FormField list"
  form_Table :: string
  form_Title :: string
  form_Description :: string
  form_TabGroups :: "string list list"
  form_TabHeaders :: "string list"
  form_Ajax :: "(string \<times> string) option"
  form_PostHook :: "(Values \<Rightarrow> event list \<times> string option) option"

record PrimaryKey =
  pk_Type :: DatabaseType
  pk_Name :: string

record Config =
  cfg_Driver :: string
  cfg_CanAdd :: bool
  cfg_Editable :: bool
  cfg_Deletable :: bool
  cfg_Exportable :: bool
  cfg_Connection :: string
  cfg_PrimaryKey :: PrimaryKey

record Table =
  tbl_Config :: Config
  tbl_Info :: InfoPanel
  tbl_Form :: FormPanel
  tbl_Detail :: InfoPanel

section \<open>The framework interface used by the builders\<close>

text \<open>
  Modelled from the spec: the framework constants and default configurations are not declared
  in the repository. \<open>users.go\<close> documents \<open>table.DefaultPrimaryKeyName\<close> as \<open>id\<close>; the default
  configurations take an integer primary key of that name and allow every operation.
\<close>

definition db_DriverMysql :: string where
  "db_DriverMysql = ''mysql''"

definition db_DriverSqlite :: string where
  "db_DriverSqlite = ''sqlite''"

definition DefaultConnectionName :: string where
  "DefaultConnectionName = ''default''"

definition DefaultPrimaryKeyName :: string where
  "DefaultPrimaryKeyName = ''id''"

definition DefaultConfigWithDriver :: "string \<Rightarrow> Config" where
  "DefaultConfigWithDriver driver =
     \<lparr>cfg_Driver = driver, cfg_CanAdd = True, cfg_Editable = True, cfg_Deletable = True,
      cfg_Exportable = True, cfg_Connection = DefaultConnectionName,
      cfg_PrimaryKey = \<lparr>pk_Type = db_Int, pk_Name = DefaultPrimaryKeyName\<rparr>\<rparr>"

definition DefaultConfig :: Config where
  "DefaultConfig = DefaultConfigWithDriver db_DriverMysql"

text \<open>
  Modelled from the spec: the panel methods below belong to the framework. \<open>AddField\<close> appends a
  column (or form field) with every capability switched off; the \<open>Field...\<close> modifiers change
  the field added last; \<open>AddColumn\<close> and \<open>AddColumnButtons\<close> append a virtual column that is
  identified by its heading. Rendering callbacks, widget option lists, buttons and row
  actions do not change the column or form-field lists and are left out.
\<close>

definition chain :: "('a \<Rightarrow> 'a) list \<Rightarrow> 'a \<Rightarrow> 'a" where
  "chain steps x = fold (\<lambda>step. step) steps x"

definition on_last :: "('a \<Rightarrow> 'a) \<Rightarrow> 'a list \<Rightarrow> 'a list" where
  "on_last f xs = (if xs = [] then [] else butlast xs @ [f (last xs)])"

definition NewInfoPanel :: InfoPanel where
  "NewInfoPanel =
     \<lparr>info_FieldList = [], info_Table = [], info_Title = [], info_Description = [],
      info_FilterFormLayout = form_LayoutDefault, info_HideFilterArea = False,
      info_GetDataFn = None\<rparr>"

definition NewFormPanel :: FormPanel where
  "NewFormPanel =
     \<lparr>form_FieldList = [], form_Table = [], form_Title = [], form_Description = [],
      form_TabGroups = [], form_TabHeaders = [], form_Ajax = None, form_PostHook = None\<rparr>"

definition NewDefaultTable :: "'ctx \<Rightarrow> Config \<Rightarrow> Table" where
  "NewDefaultTable ctx cfg =
     \<lparr>tbl_Config = cfg, tbl_Info = NewInfoPanel, tbl_Form = NewFormPanel,
      tbl_Detail = NewInfoPanel\<rparr>"

definition GetInfo :: "Table \<Rightarrow> InfoPanel" where
  "GetInfo t = tbl_Info t"

definition GetForm :: "Table \<Rightarrow> FormPanel" where
  "GetForm t = tbl_Form t"

definition GetDetail :: "Table \<Rightarrow> InfoPanel" where
  "GetDetail t = tbl_Detail t"

definition Info_AddField :: "string \<Rightarrow> string \<Rightarrow> DatabaseType \<Rightarrow> InfoPanel \<Rightarrow> InfoPanel" where
  "Info_AddField head field typ i =
     i\<lparr>info_FieldList := info_FieldList i @
        [\<lparr>col_Head = head, col_Field = field, col_TypeName = typ, col_Sortable = False,
          col_EditAble = False, col_EditType = editType_Text, col_Filterable = False,
          col_FilterTypes = [], col_Hide = False, col_Joins = []\<rparr>]\<rparr>"

definition Info_AddColumn :: "string \<Rightarrow> InfoPanel \<Rightarrow> InfoPanel" where
  "Info_AddColumn head i = Info_AddField head head db_Varchar i"

definition Info_AddColumnButtons :: "'ctx \<Rightarrow> string \<Rightarrow> InfoPanel \<Rightarrow> InfoPanel" where
  "Info_AddColumnButtons ctx head i = Info_AddField head head db_Varchar i"

definition Info_FieldSortable :: "InfoPanel \<Rightarrow> InfoPanel" where
  "Info_FieldSortable i = i\<lparr>info_FieldList := on_last (\<lambda>c. c\<lparr>col_Sortable := True\<rparr>) (info_FieldList i)\<rparr>"

definition Info_FieldEditAble :: "EditType \<Rightarrow> InfoPanel \<Rightarrow> InfoPanel" where
  "Info_FieldEditAble et i =
     i\<lparr>info_FieldList := on_last (\<lambda>c. c\<lparr>col_EditAble := True, col_EditType := et\<rparr>) (info_FieldList i)\<rparr>"

definition Info_FieldFilterable :: "FilterType list \<Rightarrow> InfoPanel \<Rightarrow> InfoPanel" where
  "Info_FieldFilterable fts i =
     i\<lparr>info_FieldList := on_last (\<lambda>c. c\<lparr>col_Filterable := True, col_FilterTypes := fts\<rparr>) (info_FieldList i)\<rparr>"

definition Info_FieldHide :: "InfoPanel \<Rightarrow> InfoPanel" where
  "Info_FieldHide i = i\<lparr>info_FieldList := on_last (\<lambda>c. c\<lparr>col_Hide := True\<rparr>) (info_FieldList i)\<rparr>"

definition Info_FieldJoin :: "Join \<Rightarrow> InfoPanel \<Rightarrow> InfoPanel" where
  "Info_FieldJoin j i =
     i\<lparr>info_FieldList := on_last (\<lambda>c. c\<lparr>col_Joins := col_Joins c @ [j]\<rparr>) (info_FieldList i)\<rparr>"

definition Info_SetFilterFormLayout :: "Layout \<Rightarrow> InfoPanel \<Rightarrow> InfoPanel" where
  "Info_SetFilterFormLayout l i = i\<lparr>info_FilterFormLayout := l\<rparr>"

definition Info_HideFilterArea :: "InfoPanel \<Rightarrow> InfoPanel" where
  "Info_HideFilterArea i = i\<lparr>info_HideFilterArea := True\<rparr>"

definition Info_SetTable :: "string \<Rightarrow> InfoPanel \<Rightarrow> InfoPanel" where
  "Info_SetTable name i = i\<lparr>info_Table := name\<rparr>"

definition Info_SetTitle :: "string \<Rightarrow> InfoPanel \<Rightarrow> InfoPanel" where
  "Info_SetTitle title i = i\<lparr>info_Title := title\<rparr>"

definition Info_SetDescription :: "string \<Rightarrow> InfoPanel \<Rightarrow> InfoPanel" where
  "Info_SetDescription d i = i\<lparr>info_Description := d\<rparr>"

definition Info_SetGetDataFn :: "GetDataFn \<Rightarrow> InfoPanel \<Rightarrow> InfoPanel" where
  "Info_SetGetDataFn fn i = i\<lparr>info_GetDataFn := Some fn\<rparr>"

definition Form_AddField :: "string \<Rightarrow> string \<Rightarrow> DatabaseType \<Rightarrow> FormType \<Rightarrow> FormPanel \<Rightarrow> FormPanel" where
  "Form_AddField head field typ ft f =
     f\<lparr>form_FieldList := form_FieldList f @
        [\<lparr>fld_Head = head, fld_Field = field, fld_TypeName = typ, fld_FormType = ft,
          fld_NotAllowEdit = False, fld_NotAllowAdd = False, fld_Default = [],
          fld_EnableFileUpload = False, fld_PostFilterFn = None\<rparr>]\<rparr>"

definition Form_FieldNotAllowEdit :: "FormPanel \<Rightarrow> FormPanel" where
  "Form_FieldNotAllowEdit f =
     f\<lparr>form_FieldList := on_last (\<lambda>x. x\<lparr>fld_NotAllowEdit := True\<rparr>) (form_FieldList f)\<rparr>"

definition Form_FieldNotAllowAdd :: "FormPanel \<Rightarrow> FormPanel" where
  "Form_FieldNotAllowAdd f =
     f\<lparr>form_FieldList := on_last (\<lambda>x. x\<lparr>fld_NotAllowAdd := True\<rparr>) (form_FieldList f)\<rparr>"

definition Form_FieldDefault :: "string \<Rightarrow> FormPanel \<Rightarrow> FormPanel" where
  "Form_FieldDefault d f =
     f\<lparr>form_FieldList := on_last (\<lambda>x. x\<lparr>fld_Default := d\<rparr>) (form_FieldList f)\<rparr>"

definition Form_FieldEnableFileUpload :: "FormPanel \<Rightarrow> FormPanel" where
  "Form_FieldEnableFileUpload f =
     f\<lparr>form_FieldList := on_last (\<lambda>x. x\<lparr>fld_EnableFileUpload := True\<rparr>) (form_FieldList f)\<rparr>"

definition Form_FieldPostFilterFn ::
  "(PostFieldModel \<Rightarrow> event list \<times> gvalue) \<Rightarrow> FormPanel \<Rightarrow> FormPanel" where
  "Form_FieldPostFilterFn fn f =
     f\<lparr>form_FieldList := on_last (\<lambda>x. x\<lparr>fld_PostFilterFn := Some fn\<rparr>) (form_FieldList f)\<rparr>"

definition Form_SetTabGroups :: "string list list \<Rightarrow> FormPanel \<Rightarrow> FormPanel" where
  "Form_SetTabGroups gs f = f\<lparr>form_TabGroups := gs\<rparr>"

definition Form_SetTabHeaders :: "string list \<Rightarrow> FormPanel \<Rightarrow> FormPanel" where
  "Form_SetTabHeaders hs f = f\<lparr>form_TabHeaders := hs\<rparr>"

definition Form_EnableAjax :: "string \<Rightarrow> string \<Rightarrow> FormPanel \<Rightarrow> FormPanel" where
  "Form_EnableAjax ok fail f = f\<lparr>form_Ajax := Some (ok, fail)\<rparr>"

definition Form_SetPostHook :: "(Values \<Rightarrow> event list \<times> string option) \<Rightarrow> FormPanel \<Rightarrow> FormPanel" where
  "Form_SetPostHook h f = f\<lparr>form_PostHook := Some h\<rparr>"

definition Form_SetTable :: "string \<Rightarrow> FormPanel \<Rightarrow> FormPanel" where
  "Form_SetTable name f = f\<lparr>form_Table := name\<rparr>"

definition Form_SetTitle :: "string \<Rightarrow> FormPanel \<Rightarrow> FormPanel" where
  "Form_SetTitle title f = f\<lparr>form_Title := title\<rparr>"

definition Form_SetDescription :: "string \<Rightarrow> FormPanel \<Rightarrow> FormPanel" where
  "Form_SetDescription d f = f\<lparr>form_Description := d\<rparr>"

section \<open>Display labels\<close>

text \<open>The string literals of the builders that are not ASCII, as UTF-8 bytes.\<close>

definition zh_ID :: string where
  "zh_ID = [CHR 0xE7, CHR 0xBC, CHR 0x96, CHR 0xE5, CHR 0x8F, CHR 0xB7]"

definition zh_Title :: string where
  "zh_Title = [CHR 0xE6, CHR 0xA0, CHR 0x87, CHR 0xE9, CHR 0xA2, CHR 0x98]"

definition zh_AuthorID :: string where
  "zh_AuthorID = [CHR 0xE4, CHR 0xBD, CHR 0x9C, CHR 0xE8, CHR 0x80, CHR 0x85, CHR ''I'', CHR ''D'']"

definition zh_AuthorName :: string where
  "zh_AuthorName = [CHR 0xE4, CHR 0xBD, CHR 0x9C, CHR 0xE8, CHR 0x80, CHR 0x85, CHR 0xE5, CHR 0xA7, CHR 0x93, CHR 0xE5, CHR 0x90, CHR 0x8D]"

definition zh_AuthorFirstName :: string where
  "zh_AuthorFirstName = [CHR 0xE4, CHR 0xBD, CHR 0x9C, CHR 0xE8, CHR 0x80, CHR 0x85, CHR 0xE5, CHR 0x90, CHR 0x8D]"

definition zh_AuthorLastName :: string where
  "zh_AuthorLastName = [CHR 0xE4, CHR 0xBD, CHR 0x9C, CHR 0xE8, CHR 0x80, CHR 0x85, CHR 0xE5, CHR 0xA7, CHR 0x93]"

definition zh_Description :: string where
  "zh_Description = [CHR 0xE6, CHR 0x8F, CHR 0x8F, CHR 0xE8, CHR 0xBF, CHR 0xB0]"

definition zh_Content :: string where
  "zh_Content = [CHR 0xE5, CHR 0x86, CHR 0x85, CHR 0xE5, CHR 0xAE, CHR 0xB9]"

definition zh_Date :: string where
  "zh_Date = [CHR 0xE6, CHR 0x97, CHR 0xA5, CHR 0xE6, CHR 0x9C, CHR 0x9F]"

definition zh_Posts :: string where
  "zh_Posts = [CHR 0xE6, CHR 0x96, CHR 0x87, CHR 0xE7, CHR 0xAB, CHR 0xA0]"

definition zh_Name :: string where
  "zh_Name = [CHR 0xE5, CHR 0xA7, CHR 0x93, CHR 0xE5, CHR 0x90, CHR 0x8D]"

definition zh_Gender :: string where
  "zh_Gender = [CHR 0xE6, CHR 0x80, CHR 0xA7, CHR 0xE5, CHR 0x88, CHR 0xAB]"

definition zh_Personality :: string where
  "zh_Personality = [CHR 0xE4, CHR 0xB8, CHR 0xAA, CHR 0xE6, CHR 0x80, CHR 0xA7]"

definition zh_SeeMore :: string where
  "zh_SeeMore = [CHR 0xE6, CHR 0x9F, CHR 0xA5, CHR 0xE7, CHR 0x9C, CHR 0x8B, CHR 0xE6, CHR 0x9B, CHR 0xB4, CHR 0xE5, CHR 0xA4, CHR 0x9A]"

definition zh_Phone :: string where
  "zh_Phone = [CHR 0xE7, CHR 0x94, CHR 0xB5, CHR 0xE8, CHR 0xAF, CHR 0x9D]"

definition zh_City :: string where
  "zh_City = [CHR 0xE5, CHR 0x9F, CHR 0x8E, CHR 0xE5, CHR 0xB8, CHR 0x82]"

definition zh_Avatar :: string where
  "zh_Avatar = [CHR 0xE5, CHR 0xA4, CHR 0xB4, CHR 0xE5, CHR 0x83, CHR 0x8F]"

definition zh_CreatedAt :: string where
  "zh_CreatedAt = [CHR 0xE5, CHR 0x88, CHR 0x9B, CHR 0xE5, CHR 0xBB, CHR 0xBA, CHR 0xE6, CHR 0x97, CHR 0xB6, CHR 0xE9, CHR 0x97, CHR 0xB4]"

definition zh_UpdatedAt :: string where
  "zh_UpdatedAt = [CHR 0xE6, CHR 0x9B, CHR 0xB4, CHR 0xE6, CHR 0x96, CHR 0xB0, CHR 0xE6, CHR 0x97, CHR 0xB6, CHR 0xE9, CHR 0x97, CHR 0xB4]"

definition zh_Country :: string where
  "zh_Country = [CHR 0xE5, CHR 0x9B, CHR 0xBD, CHR 0xE5, CHR 0xAE, CHR 0xB6]"

definition zh_CustomField :: string where
  "zh_CustomField = [CHR 0xE8, CHR 0x87, CHR 0xAA, CHR 0xE5, CHR 0xAE, CHR 0x9A, CHR 0xE4, CHR 0xB9, CHR 0x89, CHR 0xE5, CHR 0xAD, CHR 0x97, CHR 0xE6, CHR 0xAE, CHR 0xB5]"

definition zh_Users :: string where
  "zh_Users = [CHR 0xE7, CHR 0x94, CHR 0xA8, CHR 0xE6, CHR 0x88, CHR 0xB7]"

definition zh_FirstName :: string where
  "zh_FirstName = [CHR 0xE5, CHR 0x90, CHR 0x8D]"

definition zh_LastName :: string where
  "zh_LastName = [CHR 0xE5, CHR 0xA7, CHR 0x93]"

definition zh_Email :: string where
  "zh_Email = [CHR 0xE9, CHR 0x82, CHR 0xAE, CHR 0xE7, CHR 0xAE, CHR 0xB1]"

definition zh_Birthdate :: string where
  "zh_Birthdate = [CHR 0xE5, CHR 0x87, CHR 0xBA, CHR 0xE7, CHR 0x94, CHR 0x9F, CHR 0xE6, CHR 0x97, CHR 0xA5, CHR 0xE6, CHR 0x9C, CHR 0x9F]"

definition zh_Added :: string where
  "zh_Added = [CHR 0xE6, CHR 0xB7, CHR 0xBB, CHR 0xE5, CHR 0x8A, CHR 0xA0, CHR 0xE6, CHR 0x97, CHR 0xB6, CHR 0xE9, CHR 0x97, CHR 0xB4]"

definition zh_Authors :: string where
  "zh_Authors = [CHR 0xE4, CHR 0xBD, CHR 0x9C, CHR 0xE8, CHR 0x80, CHR 0x85]"

definition zh_Pass :: string where
  "zh_Pass = [CHR 0xE9, CHR 0x80, CHR 0x9A, CHR 0xE8, CHR 0xBF, CHR 0x87]"

definition zh_Photos :: string where
  "zh_Photos = [CHR 0xE7, CHR 0x85, CHR 0xA7, CHR 0xE7, CHR 0x89, CHR 0x87]"

definition zh_FinishState :: string where
  "zh_FinishState = [CHR 0xE5, CHR 0xAE, CHR 0x8C, CHR 0xE6, CHR 0x88, CHR 0x90, CHR 0xE7, CHR 0x8A, CHR 0xB6, CHR 0xE6, CHR 0x80, CHR 0x81]"

definition zh_Progress :: string where
  "zh_Progress = [CHR 0xE8, CHR 0xBF, CHR 0x9B, CHR 0xE5, CHR 0xBA, CHR 0xA6]"

definition zh_Resume :: string where
  "zh_Resume = [CHR 0xE7, CHR 0xAE, CHR 0x80, CHR 0xE5, CHR 0x8E, CHR 0x86]"

definition zh_FileSize :: string where
  "zh_FileSize = [CHR 0xE6, CHR 0x96, CHR 0x87, CHR 0xE4, CHR 0xBB, CHR 0xB6, CHR 0xE5, CHR 0xA4, CHR 0xA7, CHR 0xE5, CHR 0xB0, CHR 0x8F]"

definition zh_Profile :: string where
  "zh_Profile = [CHR 0xE7, CHR 0x94, CHR 0xA8, CHR 0xE6, CHR 0x88, CHR 0xB7, CHR 0xE6, CHR 0xA1, CHR 0xA3, CHR 0xE6, CHR 0xA1, CHR 0x88]"

definition zh_SubmitOk :: string where
  "zh_SubmitOk = [CHR 0xE6, CHR 0x8F, CHR 0x90, CHR 0xE4, CHR 0xBA, CHR 0xA4, CHR 0xE6, CHR 0x88, CHR 0x90, CHR 0xE5, CHR 0x8A, CHR 0x9F]"

definition zh_SubmitFail :: string where
  "zh_SubmitFail = [CHR 0xE6, CHR 0x8F, CHR 0x90, CHR 0xE4, CHR 0xBA, CHR 0xA4, CHR 0xE5, CHR 0xA4, CHR 0xB1, CHR 0xE8, CHR 0xB4, CHR 0xA5]"

definition zh_Tab1 :: string where
  "zh_Tab1 = [CHR 0xE6, CHR 0xA1, CHR 0xA3, CHR 0xE6, CHR 0xA1, CHR 0x88, CHR ''1'']"

definition zh_Tab2 :: string where
  "zh_Tab2 = [CHR 0xE6, CHR 0xA1, CHR 0xA3, CHR 0xE6, CHR 0xA1, CHR 0x88, CHR ''2'']"

definition zh_ExternalData :: string where
  "zh_ExternalData = [CHR 0xE5, CHR 0xA4, CHR 0x96, CHR 0xE9, CHR 0x83, CHR 0xA8, CHR 0xE6, CHR 0x95, CHR 0xB0, CHR 0xE6, CHR 0x8D, CHR 0xAE]"

definition zh_ThisIsATitle :: string where
  "zh_ThisIsATitle = [CHR 0xE8, CHR 0xBF, CHR 0x99, CHR 0xE6, CHR 0x98, CHR 0xAF, CHR 0xE4, CHR 0xB8, CHR 0x80, CHR 0xE4, CHR 0xB8, CHR 0xAA, CHR 0xE6, CHR 0xA0, CHR 0x87, CHR 0xE9, CHR 0xA2, CHR 0x98]"

section \<open>The table builders\<close>

subsection \<open>\<open>GetExternalTable\<close> (tables/external.go)\<close>

text \<open>The two anonymous data functions ignore their parameter and return fixed rows.\<close>

definition GetExternalTable_GetDataFn :: GetDataFn where
  "GetExternalTable_GetDataFn param =
     Inr ([[''id'' \<mapsto> GInt 10, ''title'' \<mapsto> GString zh_ThisIsATitle],
           [''id'' \<mapsto> GInt 11, ''title'' \<mapsto> GString (zh_ThisIsATitle @ ''2'')],
           [''id'' \<mapsto> GInt 12, ''title'' \<mapsto> GString (zh_ThisIsATitle @ ''3'')],
           [''id'' \<mapsto> GInt 13, ''title'' \<mapsto> GString (zh_ThisIsATitle @ ''4'')]], 10)"

definition GetExternalTable_detail_GetDataFn :: GetDataFn where
  "GetExternalTable_detail_GetDataFn param =
     Inr ([[''id'' \<mapsto> GInt 10, ''title'' \<mapsto> GString zh_ThisIsATitle]], 1)"

definition GetExternalTable :: "'ctx \<Rightarrow> Table" where
  "GetExternalTable ctx =
     (let externalTable = NewDefaultTable ctx DefaultConfig;
          info = chain
            [Info_SetFilterFormLayout form_LayoutFilter,
             Info_AddField zh_ID ''id'' db_Int, Info_FieldSortable,
             Info_AddField zh_Title ''title'' db_Varchar,
             Info_SetTable ''external'', Info_SetTitle zh_ExternalData,
             Info_SetDescription zh_ExternalData,
             Info_SetGetDataFn GetExternalTable_GetDataFn]
            (GetInfo externalTable);
          formList = chain
            [Form_AddField zh_ID ''id'' db_Int form_Default,
             Form_FieldNotAllowEdit, Form_FieldNotAllowAdd,
             Form_AddField zh_Title ''title'' db_Varchar form_Text,
             Form_SetTable ''external'', Form_SetTitle zh_ExternalData,
             Form_SetDescription zh_ExternalData]
            (GetForm externalTable);
          detail = chain
            [Info_SetTable ''external'', Info_SetTitle zh_ExternalData,
             Info_SetDescription zh_ExternalData,
             Info_SetGetDataFn GetExternalTable_detail_GetDataFn]
            (GetDetail externalTable)
      in externalTable\<lparr>tbl_Info := info, tbl_Form := formList, tbl_Detail := detail\<rparr>)"

subsection \<open>\<open>GetPostsTable\<close>\<close>



definition GetPostsTable :: "'ctx \<Rightarrow> Table" where
  "GetPostsTable ctx =
     (let postsTable = NewDefaultTable ctx (DefaultConfigWithDriver ''sqlite'');
          info = chain
            [Info_SetFilterFormLayout form_LayoutFilter,
             Info_AddField zh_ID ''id'' db_Int, Info_FieldSortable,
             Info_AddField zh_Title ''title'' db_Varchar,
             Info_AddField zh_AuthorID ''author_id'' db_Int,
             Info_AddField zh_AuthorName ''name'' db_Varchar,
             Info_AddField zh_AuthorFirstName ''first_name'' db_Varchar,
             Info_FieldJoin \<lparr>join_Field = ''author_id'', join_JoinField = ''id'',
                             join_Table = ''authors''\<rparr>,
             Info_FieldHide,
             Info_AddField zh_AuthorLastName ''last_name'' db_Varchar,
             Info_FieldJoin \<lparr>join_Field = ''author_id'', join_JoinField = ''id'',
                             join_Table = ''authors''\<rparr>,
             Info_FieldHide,
             Info_AddField zh_Description ''description'' db_Varchar,
             Info_AddField zh_Content ''content'' db_Varchar,
             Info_FieldEditAble editType_Textarea,
             Info_AddField zh_Date ''date'' db_Varchar,
             Info_SetTable ''posts'', Info_SetTitle zh_Posts, Info_SetDescription zh_Posts]
            (GetInfo postsTable);
          formList = chain
            [Form_AddField zh_ID ''id'' db_Int form_Default,
             Form_FieldNotAllowEdit, Form_FieldNotAllowAdd,
             Form_AddField zh_Title ''title'' db_Varchar form_Text,
             Form_AddField zh_Description ''description'' db_Varchar form_Text,
             Form_AddField zh_Content ''content'' db_Varchar form_RichText,
             Form_FieldEnableFileUpload,
             Form_AddField zh_Date ''date'' db_Varchar form_Datetime,
             Form_EnableAjax zh_SubmitOk zh_SubmitFail,
             Form_SetTable ''posts'', Form_SetTitle zh_Posts, Form_SetDescription zh_Posts]
            (GetForm postsTable)
      in postsTable\<lparr>tbl_Info := info, tbl_Form := formList\<rparr>)"

subsection \<open>\<open>GetUserTable\<close> (tables/users.go)\<close>

text \<open>The post-submit filter of the \<open>role\<close> form field prints its argument and returns \<open>""\<close>.\<close>

definition GetUserTable_role_PostFilterFn :: "PostFieldModel \<Rightarrow> event list \<times> gvalue" where
  "GetUserTable_role_PostFilterFn value =
     ([Println_PostFieldModel ''user custom field'' value], GString [])"

definition GetUserTable_PostHook :: "Values \<Rightarrow> event list \<times> string option" where
  "GetUserTable_PostHook values =
     ([Println_Values ''userTable.GetForm().PostHook'' values], None)"

definition GetUserTable :: "'ctx \<Rightarrow> Table" where
  "GetUserTable ctx =
     (let userTable = NewDefaultTable ctx
            \<lparr>cfg_Driver = db_DriverSqlite, cfg_CanAdd = True, cfg_Editable = True,
             cfg_Deletable = True, cfg_Exportable = True,
             cfg_Connection = DefaultConnectionName,
             cfg_PrimaryKey = \<lparr>pk_Type = db_Int, pk_Name = DefaultPrimaryKeyName\<rparr>\<rparr>;
          info = chain
            [Info_SetFilterFormLayout form_LayoutFilter,
             Info_AddField zh_ID ''id'' db_Int, Info_FieldSortable,
             Info_AddField zh_Name ''name'' db_Varchar,
             Info_FieldEditAble editType_Text,
             Info_FieldFilterable
               [\<lparr>ft_FormType = None, ft_Operator = Some FilterOperatorLike\<rparr>],
             Info_AddField zh_Gender ''gender'' db_Tinyint,
             Info_FieldEditAble editType_Switch,
             Info_FieldFilterable
               [\<lparr>ft_FormType = Some form_SelectSingle, ft_Operator = None\<rparr>],
             Info_AddColumn zh_Personality,
             Info_AddColumnButtons ctx zh_SeeMore,
             Info_AddField zh_Phone ''phone'' db_Varchar, Info_FieldFilterable [],
             Info_AddField zh_City ''city'' db_Varchar, Info_FieldFilterable [],
             Info_AddField zh_Avatar ''avatar'' db_Varchar,
             Info_AddField zh_CreatedAt ''created_at'' db_Timestamp,
             Info_FieldFilterable
               [\<lparr>ft_FormType = Some form_DatetimeRange, ft_Operator = None\<rparr>],
             Info_AddField zh_UpdatedAt ''updated_at'' db_Timestamp,
             Info_FieldEditAble editType_Datetime,
             Info_SetTable ''users'', Info_SetTitle zh_Users, Info_SetDescription zh_Users]
            (GetInfo userTable);
          formList = chain
            [Form_AddField zh_ID ''id'' db_Int form_Default,
             Form_FieldNotAllowEdit, Form_FieldNotAllowAdd,
             Form_AddField ''IP'' ''ip'' db_Varchar form_Text,
             Form_AddField zh_Name ''name'' db_Varchar form_Text,
             Form_AddField zh_Gender ''gender'' db_Tinyint form_Radio,
             Form_FieldDefault ''0'',
             Form_AddField zh_Phone ''phone'' db_Varchar form_Text,
             Form_AddField zh_Country ''country'' db_Tinyint form_SelectSingle,
             Form_FieldDefault ''0'',
             Form_AddField zh_City ''city'' db_Varchar form_SelectSingle,
             Form_AddField zh_CustomField ''role'' db_Varchar form_Text,
             Form_FieldPostFilterFn GetUserTable_role_PostFilterFn,
             Form_AddField zh_UpdatedAt ''updated_at'' db_Timestamp form_Default,
             Form_FieldNotAllowAdd,
             Form_AddField zh_CreatedAt ''created_at'' db_Timestamp form_Default,
             Form_FieldNotAllowAdd,
             Form_SetTabGroups
               [[''id'', ''ip'', ''name'', ''gender'', ''country'', ''city''],
                [''phone'', ''role'', ''created_at'', ''updated_at'']],
             Form_SetTabHeaders [zh_Tab1, zh_Tab2],
             Form_SetTable ''users'', Form_SetTitle zh_Users, Form_SetDescription zh_Users,
             Form_SetPostHook GetUserTable_PostHook]
            (GetForm userTable)
      in userTable\<lparr>tbl_Info := info, tbl_Form := formList\<rparr>)"

subsection \<open>\<open>GetAuthorsTable\<close>\<close>

definition GetAuthorsTable :: "'ctx \<Rightarrow> Table" where
  "GetAuthorsTable ctx =
     (let authorsTable = NewDefaultTable ctx (DefaultConfigWithDriver ''sqlite'');
          info = chain
            [Info_SetFilterFormLayout form_LayoutFilter,
             Info_AddField zh_ID ''id'' db_Int, Info_FieldSortable,
             Info_AddField zh_FirstName ''first_name'' db_Varchar, Info_FieldHide,
             Info_AddField zh_LastName ''last_name'' db_Varchar, Info_FieldHide,
             Info_AddField zh_Name ''name'' db_Varchar,
             Info_AddField zh_Email ''email'' db_Varchar,
             Info_AddField zh_Birthdate ''birthdate'' db_Date,
             Info_AddField zh_Added ''added'' db_Timestamp,
             Info_SetTable ''authors'', Info_SetTitle zh_Authors,
             Info_SetDescription zh_Authors]
            (GetInfo authorsTable);
          formList = chain
            [Form_AddField zh_ID ''id'' db_Int form_Default,
             Form_FieldNotAllowEdit, Form_FieldNotAllowAdd,
             Form_AddField zh_FirstName ''first_name'' db_Varchar form_Text,
             Form_AddField zh_LastName ''last_name'' db_Varchar form_Text,
             Form_AddField zh_Email ''email'' db_Varchar form_Text,
             Form_AddField zh_Birthdate ''birthdate'' db_Date form_Text,
             Form_AddField zh_Added ''added'' db_Timestamp form_Text,
             Form_SetTable ''authors'', Form_SetTitle zh_Authors,
             Form_SetDescription zh_Authors]
            (GetForm authorsTable)
      in authorsTable\<lparr>tbl_Info := info, tbl_Form := formList\<rparr>)"

subsection \<open>\<open>GetProfileTable\<close>\<close>

definition GetProfileTable :: "'ctx \<Rightarrow> Table" where
  "GetProfileTable ctx =
     (let profile = NewDefaultTable ctx (DefaultConfigWithDriver ''sqlite'');
          info = chain
            [Info_HideFilterArea, Info_SetFilterFormLayout form_LayoutFilter,
             Info_AddField zh_ID ''id'' db_Int, Info_FieldFilterable [],
             Info_AddField ''UUID'' ''uuid'' db_Varchar,
             Info_AddField zh_Pass ''pass'' db_Tinyint,
             Info_AddField zh_Photos ''photos'' db_Varchar,
             Info_AddField zh_FinishState ''finish_state'' db_Tinyint,
             Info_AddField zh_Progress ''finish_progress'' db_Int,
             Info_AddField zh_Resume ''resume'' db_Varchar,
             Info_AddField zh_FileSize ''resume_size'' db_Int,
             Info_SetTable ''profile'', Info_SetTitle zh_Profile,
             Info_SetDescription zh_Profile]
            (GetInfo profile);
          formList = chain
            [Form_AddField ''UUID'' ''uuid'' db_Varchar form_Text,
             Form_AddField zh_Photos ''photos'' db_Varchar form_Text,
             Form_AddField zh_Resume ''resume'' db_Varchar form_Text,
             Form_AddField zh_FileSize ''resume_size'' db_Int form_Number,
             Form_AddField zh_FinishState ''finish_state'' db_Tinyint form_Number,
             Form_AddField zh_Progress ''finish_progress'' db_Int form_Number,
             Form_AddField zh_Pass ''pass'' db_Tinyint form_Number,
             Form_SetTable ''profile'', Form_SetTitle zh_Profile,
             Form_SetDescription zh_Profile]
            (GetForm profile)
      in profile\<lparr>tbl_Info := info, tbl_Form := formList\<rparr>)"

section \<open>Registration at start-up\<close>

text \<open>
  The map literal \<open>Generators\<close> of package \<open>tables\<close>, as an association list (a Go map literal
  cannot repeat a constant key).
\<close>

type_synonym 'ctx Generator = "'ctx \<Rightarrow> Table"

definition Generators :: "(string \<times> 'ctx Generator) list" where
  "Generators =
     [(''posts'', GetPostsTable), (''users'', GetUserTable),
      (''authors'', GetAuthorsTable), (''profile'', GetProfileTable)]"

text \<open>
  \<open>startServer\<close> in main.go hands \<open>tables.Generators\<close> and then the pair
  \<open>("external", tables.GetExternalTable)\<close> to the engine. These are the registered builders.
\<close>

definition registered :: "(string \<times> 'ctx Generator) list" where
  "registered = Generators @ [(''external'', GetExternalTable)]"

definition columns :: "Table \<Rightarrow> string list" where
  "columns t = map col_Field (info_FieldList (tbl_Info t))"

definition formFields :: "Table \<Rightarrow> string list" where
  "formFields t = map fld_Field (form_FieldList (tbl_Form t))"

definition primaryKey :: "Table \<Rightarrow> string" where
  "primaryKey t = pk_Name (cfg_PrimaryKey (tbl_Config t))"



section \<open>Registry, data-source and persistence contracts\<close>

datatype error =
  UnknownDescriptor | DuplicateRegistration | DataSourceFailure | MalformedDescriptor

type_synonym 'ctx registry = "string \<rightharpoonup> 'ctx Generator"

text \<open>
  Modelled from the spec: registration is carried out by the framework engine, which is not
  part of the repository. \<open>register(name, builder)\<close> inserts a mapping and fails with
  \<open>DuplicateRegistration\<close> when the name is already present.
\<close>

definition register :: "string \<Rightarrow> 'ctx Generator \<Rightarrow> 'ctx registry \<Rightarrow> error + 'ctx registry" where
  "register name builder reg =
     (case reg name of
        Some old \<Rightarrow> Inl DuplicateRegistration
      | None \<Rightarrow> Inr (reg(name \<mapsto> builder)))"

text \<open>
  Modelled from the spec: lookup is carried out by the framework router, which is not part of
  the repository. \<open>resolve(name, requestContext)\<close> invokes the builder registered under the
  name; a name absent from the registry is the error \<open>UnknownDescriptor\<close>.
\<close>

definition resolve :: "'ctx registry \<Rightarrow> string \<Rightarrow> 'ctx \<Rightarrow> error + Table" where
  "resolve reg name ctx =
     (case reg name of
        None \<Rightarrow> Inl UnknownDescriptor
      | Some builder \<Rightarrow> Inr (builder ctx))"

text \<open>
  Modelled from the spec: the engine methods \<open>AddGenerator\<close> and \<open>AddGenerators\<close> called by
  \<open>startServer\<close> belong to the framework; they register one pair, or every pair of a list. An
  error of an earlier call is carried to the end of the call chain.
\<close>

definition AddGenerator ::
  "string \<Rightarrow> 'ctx Generator \<Rightarrow> error + 'ctx registry \<Rightarrow> error + 'ctx registry" where
  "AddGenerator key g eng = (case eng of Inl err \<Rightarrow> Inl err | Inr reg \<Rightarrow> register key g reg)"

fun AddGenerators ::
  "(string \<times> 'ctx Generator) list \<Rightarrow> error + 'ctx registry \<Rightarrow> error + 'ctx registry" where
  "AddGenerators [] eng = eng"
| "AddGenerators ((key, g) # list) eng = AddGenerators list (AddGenerator key g eng)"

text \<open>
  \<open>startWith\<close> is the registration stage of a start-up for an arbitrary list of pairs: a
  registration error ends in a panic, otherwise the registry is the one to be served.
\<close>

datatype 'ctx server =
    Panicked error
  | Crashed panic
  | NotListening string
  | Serving "'ctx registry"

definition startWith :: "(string \<times> 'ctx Generator) list \<Rightarrow> 'ctx server" where
  "startWith list =
     (case AddGenerators list (Inr Map.empty) of
        Inl err \<Rightarrow> Panicked err
      | Inr reg \<Rightarrow> Serving reg)"

text \<open>
  The steps of \<open>startServer\<close> in main.go whose outcome depends on the environment of the
  process, each with the error it meets, if any: the engine's \<open>Use\<close> at the end of the call chain
  (configuration file, adapter, plug-ins), \<open>gorm.Open\<close> in \<open>models.Init\<close>, and
  \<open>srv.ListenAndServe\<close>.
\<close>

record environment =
  env_Use :: "string option"
  env_gorm_Open :: "string option"
  env_ListenAndServe :: "string option"

text \<open>
  \<open>startServer\<close> panics on the error that the call chain returns, then \<open>models.Init\<close> panics with
  \<open>initialize orm failed\<close> when the database cannot be opened, and a server that cannot listen
  only logs the error. Requests are served in no other case.
\<close>

definition startServer :: "environment \<Rightarrow> 'ctx server" where
  "startServer env =
     (case AddGenerator ''external'' GetExternalTable (AddGenerators Generators (Inr Map.empty)) of
        Inl err \<Rightarrow> Panicked err
      | Inr reg \<Rightarrow>
          (case env_Use env of
             Some err \<Rightarrow> Crashed (Panic err)
           | None \<Rightarrow>
               (case env_gorm_Open env of
                  Some err \<Rightarrow> Crashed (Panic ''initialize orm failed'')
                | None \<Rightarrow>
                    (case env_ListenAndServe env of
                       Some err \<Rightarrow> NotListening err
                     | None \<Rightarrow> Serving reg))))"

text \<open>
  Modelled from the spec: the caller of a custom data-source function is the framework's
  list view, which is not part of the repository. When the function errors or panics the
  caller receives zero rows and a zero count.
\<close>

definition getData :: "GetDataFn \<Rightarrow> Parameters \<Rightarrow> row list \<times> int" where
  "getData fn param = (case fn param of Inl p \<Rightarrow> ([], 0) | Inr result \<Rightarrow> result)"





text \<open>
  Modelled from the spec: storing a submitted form is done by the framework, which is not
  part of the repository. A form field whose post-submit transform returns the empty string
  is not persisted; the value returned by the transform, not the absence of a transform,
  controls persistence, so a field without a transform is persisted as submitted.
\<close>

datatype persistence = NotPersisted | PersistSubmitted "string list" | PersistTransformed gvalue

definition persist :: "FormField \<Rightarrow> PostFieldModel \<Rightarrow> persistence" where
  "persist f m =
     (case fld_PostFilterFn f of
        None \<Rightarrow> PersistSubmitted (pfm_Value m)
      | Some fn \<Rightarrow>
          (let v = snd (fn m) in if v = GString [] then NotPersisted else PersistTransformed v))"

text \<open>The form field of a panel with a given field name, if there is one.\<close>

definition FindByFieldName :: "FormPanel \<Rightarrow> string \<Rightarrow> FormField option" where
  "FindByFieldName f name = find (\<lambda>x. fld_Field x = name) (form_FieldList f)"

section \<open>Properties of the builders\<close>

lemmas panel_defs =
  chain_def on_last_def NewDefaultTable_def NewInfoPanel_def NewFormPanel_def
  GetInfo_def GetForm_def GetDetail_def DefaultConfig_def DefaultConfigWithDriver_def
  DefaultPrimaryKeyName_def
  Info_AddField_def Info_AddColumn_def Info_AddColumnButtons_def Info_FieldSortable_def
  Info_FieldEditAble_def Info_FieldFilterable_def Info_FieldHide_def Info_FieldJoin_def
  Info_SetFilterFormLayout_def Info_HideFilterArea_def Info_SetTable_def Info_SetTitle_def
  Info_SetDescription_def Info_SetGetDataFn_def
  Form_AddField_def Form_FieldNotAllowEdit_def Form_FieldNotAllowAdd_def Form_FieldDefault_def
  Form_FieldEnableFileUpload_def Form_FieldPostFilterFn_def Form_SetTabGroups_def
  Form_SetTabHeaders_def Form_EnableAjax_def Form_SetPostHook_def Form_SetTable_def
  Form_SetTitle_def Form_SetDescription_def

subsection \<open>Column and form-field names of each builder\<close>

lemma posts_columns:
  "columns (GetPostsTable ctx) =
     [''id'', ''title'', ''author_id'', ''name'', ''first_name'', ''last_name'',
      ''description'', ''content'', ''date'']"
  by (simp add: columns_def GetPostsTable_def Let_def panel_defs)

lemma posts_formFields:
  "formFields (GetPostsTable ctx) = [''id'', ''title'', ''description'', ''content'', ''date'']"
  by (simp add: formFields_def GetPostsTable_def Let_def panel_defs)

lemma users_columns:
  "columns (GetUserTable ctx) =
     [''id'', ''name'', ''gender'', zh_Personality, zh_SeeMore, ''phone'', ''city'',
      ''avatar'', ''created_at'', ''updated_at'']"
  by (simp add: columns_def GetUserTable_def Let_def panel_defs)

lemma users_formFields:
  "formFields (GetUserTable ctx) =
     [''id'', ''ip'', ''name'', ''gender'', ''phone'', ''country'', ''city'', ''role'',
      ''updated_at'', ''created_at'']"
  by (simp add: formFields_def GetUserTable_def Let_def panel_defs)

lemma authors_columns:
  "columns (GetAuthorsTable ctx) =
     [''id'', ''first_name'', ''last_name'', ''name'', ''email'', ''birthdate'', ''added'']"
  by (simp add: columns_def GetAuthorsTable_def Let_def panel_defs)

lemma authors_formFields:
  "formFields (GetAuthorsTable ctx) =
     [''id'', ''first_name'', ''last_name'', ''email'', ''birthdate'', ''added'']"
  by (simp add: formFields_def GetAuthorsTable_def Let_def panel_defs)

lemma profile_columns:
  "columns (GetProfileTable ctx) =
     [''id'', ''uuid'', ''pass'', ''photos'', ''finish_state'', ''finish_progress'',
      ''resume'', ''resume_size'']"
  by (simp add: columns_def GetProfileTable_def Let_def panel_defs)

lemma profile_formFields:
  "formFields (GetProfileTable ctx) =
     [''uuid'', ''photos'', ''resume'', ''resume_size'', ''finish_state'',
      ''finish_progress'', ''pass'']"
  by (simp add: formFields_def GetProfileTable_def Let_def panel_defs)

lemma external_columns: "columns (GetExternalTable ctx) = [''id'', ''title'']"
  by (simp add: columns_def GetExternalTable_def Let_def panel_defs)

lemma external_formFields: "formFields (GetExternalTable ctx) = [''id'', ''title'']"
  by (simp add: formFields_def GetExternalTable_def Let_def panel_defs)

lemma primaryKey_posts: "primaryKey (GetPostsTable ctx) = ''id''"
  by (simp add: primaryKey_def GetPostsTable_def Let_def panel_defs)

lemma primaryKey_users: "primaryKey (GetUserTable ctx) = ''id''"
  by (simp add: primaryKey_def GetUserTable_def Let_def panel_defs)

lemma primaryKey_authors: "primaryKey (GetAuthorsTable ctx) = ''id''"
  by (simp add: primaryKey_def GetAuthorsTable_def Let_def panel_defs)

lemma primaryKey_profile: "primaryKey (GetProfileTable ctx) = ''id''"
  by (simp add: primaryKey_def GetProfileTable_def Let_def panel_defs)

lemma primaryKey_external: "primaryKey (GetExternalTable ctx) = ''id''"
  by (simp add: primaryKey_def GetExternalTable_def Let_def panel_defs)

lemma registered_names:
  "map fst registered = [''posts'', ''users'', ''authors'', ''profile'', ''external'']"
  by (simp add: registered_def Generators_def)

lemma registered_builders:
  "(name, g) \<in> set registered \<Longrightarrow>
     g = GetPostsTable \<or> g = GetUserTable \<or> g = GetAuthorsTable \<or> g = GetProfileTable \<or>
     g = GetExternalTable"
  unfolding registered_def Generators_def by (simp, blast)

lemma posts_joins_not_editable:
  "list_all (\<lambda>c. col_Joins c = [] \<or> \<not> col_EditAble c) (info_FieldList (tbl_Info (GetPostsTable ctx)))"
  by (simp add: GetPostsTable_def Let_def panel_defs)

lemma users_no_joins:
  "list_all (\<lambda>c. col_Joins c = []) (info_FieldList (tbl_Info (GetUserTable ctx)))"
  by (simp add: GetUserTable_def Let_def panel_defs)

lemma authors_no_joins:
  "list_all (\<lambda>c. col_Joins c = []) (info_FieldList (tbl_Info (GetAuthorsTable ctx)))"
  by (simp add: GetAuthorsTable_def Let_def panel_defs)

lemma profile_no_joins:
  "list_all (\<lambda>c. col_Joins c = []) (info_FieldList (tbl_Info (GetProfileTable ctx)))"
  by (simp add: GetProfileTable_def Let_def panel_defs)

lemma external_no_joins:
  "list_all (\<lambda>c. col_Joins c = []) (info_FieldList (tbl_Info (GetExternalTable ctx)))"
  by (simp add: GetExternalTable_def Let_def panel_defs)

lemma posts_first_name_column:
  "info_FieldList (tbl_Info (GetPostsTable ctx)) ! 4 =
     \<lparr>col_Head = zh_AuthorFirstName, col_Field = ''first_name'', col_TypeName = db_Varchar,
      col_Sortable = False, col_EditAble = False, col_EditType = editType_Text,
      col_Filterable = False, col_FilterTypes = [], col_Hide = True,
      col_Joins = [\<lparr>join_Field = ''author_id'', join_JoinField = ''id'',
                    join_Table = ''authors''\<rparr>]\<rparr>"
  by (simp add: GetPostsTable_def Let_def panel_defs)

lemma posts_column_count: "length (info_FieldList (tbl_Info (GetPostsTable ctx))) = 9"
  by (simp add: GetPostsTable_def Let_def panel_defs)

section \<open>Properties of the registered descriptors\<close>

text \<open>
  C1: for every registered name (posts, users, authors, profile, external) and every request
  context, the field name of the primary key declared by the descriptor that the name's
  builder produces occurs exactly once in the descriptor's column list.
\<close>

theorem C1_primary_key_once:
  assumes "(name, g) \<in> set registered"
  shows "count_list (columns (g ctx)) (primaryKey (g ctx)) = 1"
proof -
  consider "g = GetPostsTable" | "g = GetUserTable" | "g = GetAuthorsTable"
    | "g = GetProfileTable" | "g = GetExternalTable"
    using registered_builders [OF assms] by blast
  then show ?thesis
  proof cases
    case 1
    then show ?thesis by (simp add: posts_columns primaryKey_posts)
  next
    case 2
    then show ?thesis
      by (simp add: users_columns primaryKey_users zh_Personality_def zh_SeeMore_def)
  next
    case 3
    then show ?thesis by (simp add: authors_columns primaryKey_authors)
  next
    case 4
    then show ?thesis by (simp add: profile_columns primaryKey_profile)
  next
    case 5
    then show ?thesis by (simp add: external_columns primaryKey_external)
  qed
qed

theorem C1_primary_key_once_witness:
  "(''users'', GetUserTable) \<in> set registered \<and>
   count_list (columns (GetUserTable ())) (primaryKey (GetUserTable ())) = 1"
  using C1_primary_key_once [of "''users''" GetUserTable "()"]
  by (simp add: registered_def Generators_def)

text \<open>
  C4: for every registered descriptor and every request context, no two columns of the
  produced descriptor share a field name, and no two form fields share a field name.
\<close>

theorem C4_field_names_distinct:
  assumes "(name, g) \<in> set registered"
  shows "distinct (columns (g ctx)) \<and> distinct (formFields (g ctx))"
proof -
  consider "g = GetPostsTable" | "g = GetUserTable" | "g = GetAuthorsTable"
    | "g = GetProfileTable" | "g = GetExternalTable"
    using registered_builders [OF assms] by blast
  then show ?thesis
  proof cases
  case 1
  then show ?thesis by (simp add: posts_columns posts_formFields)
next
  case 2
  then show ?thesis
    by (simp add: users_columns users_formFields zh_Personality_def zh_SeeMore_def)
next
  case 3
  then show ?thesis by (simp add: authors_columns authors_formFields)
next
  case 4
  then show ?thesis by (simp add: profile_columns profile_formFields)
next
  case 5
  then show ?thesis by (simp add: external_columns external_formFields)
  qed
qed

theorem C4_field_names_distinct_witness:
  "(''posts'', GetPostsTable) \<in> set registered \<and>
   distinct (columns (GetPostsTable ())) \<and> distinct (formFields (GetPostsTable ()))"
  using C4_field_names_distinct [of "''posts''" GetPostsTable "()"]
  by (simp add: registered_def Generators_def)

text \<open>
  C9: for every registered descriptor and every request context, a column that carries a join
  descriptor is not marked as editable in the list view.
\<close>

theorem C9_join_columns_read_only:
  assumes "(name, g) \<in> set registered"
    and "c \<in> set (info_FieldList (tbl_Info (g ctx)))"
    and "col_Joins c \<noteq> []"
  shows "\<not> col_EditAble c"
proof -
  consider "g = GetPostsTable" | "g = GetUserTable" | "g = GetAuthorsTable"
    | "g = GetProfileTable" | "g = GetExternalTable"
    using registered_builders [OF assms(1)] by blast
  then show ?thesis
  proof cases
    case 1
    with assms(2,3) posts_joins_not_editable [of ctx] show ?thesis
      by (auto simp only: list_all_iff)
  next
    case 2
    with assms(2,3) users_no_joins [of ctx] show ?thesis
      by (auto simp only: list_all_iff)
  next
    case 3
    with assms(2,3) authors_no_joins [of ctx] show ?thesis
      by (auto simp only: list_all_iff)
  next
    case 4
    with assms(2,3) profile_no_joins [of ctx] show ?thesis
      by (auto simp only: list_all_iff)
  next
    case 5
    with assms(2,3) external_no_joins [of ctx] show ?thesis
      by (auto simp only: list_all_iff)
  qed
qed

theorem C9_join_columns_read_only_witness:
  "(''posts'', GetPostsTable) \<in> set registered \<and>
   info_FieldList (tbl_Info (GetPostsTable ())) ! 4 \<in> set (info_FieldList (tbl_Info (GetPostsTable ()))) \<and>
   col_Joins (info_FieldList (tbl_Info (GetPostsTable ())) ! 4) \<noteq> [] \<and>
   \<not> col_EditAble (info_FieldList (tbl_Info (GetPostsTable ())) ! 4)"
proof -
  have r: "(''posts'', GetPostsTable) \<in> set registered"
    by (simp add: registered_def Generators_def)
  have m: "info_FieldList (tbl_Info (GetPostsTable ())) ! 4 \<in> set (info_FieldList (tbl_Info (GetPostsTable ())))"
    by (rule nth_mem) (simp add: posts_column_count)
  have j: "col_Joins (info_FieldList (tbl_Info (GetPostsTable ())) ! 4) \<noteq> []"
    by (simp add: posts_first_name_column)
  from C9_join_columns_read_only [OF r m j] r m j show ?thesis by blast
qed

text \<open>
  C10: the list data function of the external table returns, for every pair of page requests,
  the same output: four fixed rows with the ids 10, 11, 12, 13 and the total count 10. Its
  detail data function always returns one row and the count 1. The request has no effect.
\<close>

theorem C10_external_data_fixed:
  "info_GetDataFn (tbl_Info (GetExternalTable ctx)) = Some GetExternalTable_GetDataFn \<and>
   info_GetDataFn (tbl_Detail (GetExternalTable ctx)) = Some GetExternalTable_detail_GetDataFn \<and>
   GetExternalTable_GetDataFn p = GetExternalTable_GetDataFn q \<and>
   (\<exists>rows. GetExternalTable_GetDataFn p = Inr (rows, 10) \<and>
      map (\<lambda>r. r ''id'') rows = [Some (GInt 10), Some (GInt 11), Some (GInt 12), Some (GInt 13)]) \<and>
   GetExternalTable_detail_GetDataFn p = GetExternalTable_detail_GetDataFn q \<and>
   (\<exists>rows. GetExternalTable_detail_GetDataFn p = Inr (rows, 1) \<and> length rows = 1)"
  by (simp add: GetExternalTable_def Let_def panel_defs GetExternalTable_GetDataFn_def
      GetExternalTable_detail_GetDataFn_def)

subsection \<open>Join projection in the posts table\<close>






section \<open>Properties of the registry, data-source and persistence contracts\<close>

subsection \<open>Page count\<close>











subsection \<open>Registration\<close>

lemma AddGenerators_error: "AddGenerators list (Inl err) = Inl err"
  by (induction list) (auto simp: AddGenerator_def)

lemma AddGenerators_duplicate:
  assumes "\<not> distinct (map fst list) \<or> (\<exists>key \<in> fst ` set list. reg key \<noteq> None)"
  shows "AddGenerators list (Inr reg) = Inl DuplicateRegistration"
  using assms
proof (induction list arbitrary: reg)
  case Nil
  then show ?case by simp
next
  case (Cons kg list)
  obtain key g where kg: "kg = (key, g)" by (cases kg)
  show ?case
  proof (cases "reg key")
    case (Some old)
    then show ?thesis
      by (simp add: kg AddGenerator_def register_def AddGenerators_error)
  next
    case None
    have step: "AddGenerators (kg # list) (Inr reg) = AddGenerators list (Inr (reg(key \<mapsto> g)))"
      by (simp add: kg AddGenerator_def register_def None)
    from Cons.prems None
    have "\<not> distinct (map fst list) \<or> (\<exists>k \<in> fst ` set list. (reg(key \<mapsto> g)) k \<noteq> None)"
      by (auto simp: kg)
    then show ?thesis
      unfolding step by (rule Cons.IH)
  qed
qed

lemma AddGenerators_distinct:
  assumes "distinct (map fst list)" and "\<forall>key \<in> fst ` set list. reg key = None"
  shows "AddGenerators list (Inr reg) = Inr (reg ++ map_of list)"
  using assms
proof (induction list arbitrary: reg)
  case Nil
  then show ?case by simp
next
  case (Cons kg list)
  obtain key g where kg: "kg = (key, g)" by (cases kg)
  from Cons.prems have none: "reg key = None" by (simp add: kg)
  have step: "AddGenerators (kg # list) (Inr reg) = AddGenerators list (Inr (reg(key \<mapsto> g)))"
    by (simp add: kg AddGenerator_def register_def none)
  from Cons.prems have d: "distinct (map fst list)" and notin: "key \<notin> fst ` set list"
    by (auto simp: kg)
  from Cons.prems notin have free: "\<forall>k \<in> fst ` set list. (reg(key \<mapsto> g)) k = None"
    by (auto simp: kg)
  have ih: "AddGenerators list (Inr (reg(key \<mapsto> g))) = Inr (reg(key \<mapsto> g) ++ map_of list)"
    using d free by (rule Cons.IH)
  have eq: "reg(key \<mapsto> g) ++ map_of list = reg ++ map_of (kg # list)"
  proof
    fix k
    from notin have "map_of list key = None"
      by (simp add: map_of_eq_None_iff)
    then show "(reg(key \<mapsto> g) ++ map_of list) k = (reg ++ map_of (kg # list)) k"
      by (auto simp: kg map_add_def split: option.splits)
  qed
  show ?case
    unfolding step ih eq by (rule refl)
qed

lemma AddGenerators_append:
  "AddGenerators (list @ [(key, g)]) eng = AddGenerator key g (AddGenerators list eng)"
  by (induction list arbitrary: eng) auto

lemma registration_chain:
  "AddGenerator ''external'' GetExternalTable (AddGenerators Generators (Inr Map.empty)) =
     Inr (map_of (registered :: (string \<times> 'ctx Generator) list))"
proof -
  have "AddGenerators registered (Inr Map.empty) =
      Inr (Map.empty ++ map_of (registered :: (string \<times> 'ctx Generator) list))"
    by (rule AddGenerators_distinct) (simp_all add: registered_names)
  then show ?thesis
    by (simp add: registered_def AddGenerators_append)
qed

lemma startServer_serving:
  assumes "(startServer env :: 'ctx server) = Serving reg"
  shows "reg = map_of registered"
  using assms
  by (simp add: startServer_def registration_chain split: option.splits)

lemma startServer_undisturbed:
  assumes "env_Use env = None" and "env_gorm_Open env = None" and "env_ListenAndServe env = None"
  shows "(startServer env :: 'ctx server) = Serving (map_of registered)"
  using assms by (simp add: startServer_def registration_chain)

text \<open>
  C5: registering a builder under a name that is already present fails with
  \<open>DuplicateRegistration\<close> and leaves no overwritten registry behind; a start-up that registers
  some name twice panics with that error and never reaches the serving state; in particular
  registering \<open>users\<close> twice fails at the second registration.
\<close>

theorem C5_duplicate_registration_fails:
  "(reg name = Some old \<longrightarrow> register name builder reg = Inl DuplicateRegistration) \<and>
   (\<not> distinct (map fst list) \<longrightarrow> startWith list = Panicked DuplicateRegistration) \<and>
   (\<exists>reg1. register ''users'' builderA Map.empty = Inr reg1 \<and>
      register ''users'' builderB reg1 = Inl DuplicateRegistration)"
  by (simp add: register_def startWith_def AddGenerators_duplicate)

theorem C5_duplicate_registration_fails_witness:
  "[''users'' \<mapsto> GetUserTable] ''users'' = Some (GetUserTable :: unit \<Rightarrow> Table) \<and>
   register ''users'' GetExternalTable [''users'' \<mapsto> (GetUserTable :: unit \<Rightarrow> Table)] =
     Inl DuplicateRegistration \<and>
   \<not> distinct (map fst [(''users'', GetUserTable :: unit \<Rightarrow> Table), (''users'', GetExternalTable)]) \<and>
   startWith [(''users'', GetUserTable :: unit \<Rightarrow> Table), (''users'', GetExternalTable)] =
     Panicked DuplicateRegistration"
  using C5_duplicate_registration_fails
          [of "[''users'' \<mapsto> (GetUserTable :: unit \<Rightarrow> Table)]" "''users''" GetUserTable
              GetExternalTable
              "[(''users'', GetUserTable :: unit \<Rightarrow> Table), (''users'', GetExternalTable)]"
              GetUserTable GetExternalTable]
  by simp blast

subsection \<open>Failure of a custom data source\<close>

text \<open>
  C6: on every page request on which a custom data-source function errors or panics, the
  caller of the data source receives zero rows and the total count zero.
\<close>

theorem C6_data_source_failure_is_empty:
  "fn param = Inl failure \<Longrightarrow> getData fn param = ([], 0)"
  by (simp add: getData_def)

theorem C6_data_source_failure_is_empty_witness:
  "(\<lambda>p. if Page p = 2 \<and> PageSize p = 20 then Inl (Panic ''source down'')
        else GetExternalTable_GetDataFn p)
      \<lparr>Page = 2, PageSize = 20, SortField = [], SortType = [], Filters = []\<rparr> =
      Inl (Panic ''source down'') \<and>
   getData (\<lambda>p. if Page p = 2 \<and> PageSize p = 20 then Inl (Panic ''source down'')
                else GetExternalTable_GetDataFn p)
      \<lparr>Page = 2, PageSize = 20, SortField = [], SortType = [], Filters = []\<rparr> = ([], 0)"
  using C6_data_source_failure_is_empty
          [of "\<lambda>p. if Page p = 2 \<and> PageSize p = 20 then Inl (Panic ''source down'')
                   else GetExternalTable_GetDataFn p"
              "\<lparr>Page = 2, PageSize = 20, SortField = [], SortType = [], Filters = []\<rparr>"
              "Panic ''source down''"]
  by simp

subsection \<open>Lookup\<close>

text \<open>
  C7: the names registered at start-up (posts, users, authors, profile, external) are pairwise
  distinct, and looking up a name that is absent from a registry fails with
  \<open>UnknownDescriptor\<close> and yields no descriptor. Whenever the start-up reaches the serving
  state, the names of the registry it serves are exactly the registered ones, and every other
  name fails in that way.
\<close>

theorem C7_lookup_fails_closed:
  "distinct (map fst (registered :: (string \<times> 'ctx Generator) list)) \<and>
   (reg name = None \<longrightarrow> resolve reg name (ctx :: 'ctx) = Inl UnknownDescriptor) \<and>
   (startServer env = Serving reg0 \<longrightarrow>
      dom reg0 = set (map fst (registered :: (string \<times> 'ctx Generator) list)) \<and>
      (name \<notin> set (map fst (registered :: (string \<times> 'ctx Generator) list)) \<longrightarrow>
         resolve reg0 name ctx = Inl UnknownDescriptor))"
proof (intro conjI impI)
  let ?r = "registered :: (string \<times> 'ctx Generator) list"
  show "distinct (map fst ?r)"
    by (simp add: registered_names)
  show "resolve reg name ctx = Inl UnknownDescriptor" if "reg name = None"
    using that by (simp add: resolve_def)
  show "dom reg0 = set (map fst ?r)" if "startServer env = Serving reg0"
    using startServer_serving [OF that] by (simp only: dom_map_of_conv_image_fst set_map)
  show "resolve reg0 name ctx = Inl UnknownDescriptor"
    if "startServer env = Serving reg0" and "name \<notin> set (map fst ?r)"
  proof -
    from that(2) have "map_of ?r name = None"
      by (simp add: map_of_eq_None_iff)
    with startServer_serving [OF that(1)] show ?thesis
      by (simp add: resolve_def)
  qed
qed

theorem C7_lookup_fails_closed_witness:
  "(Map.empty :: unit registry) ''reports'' = None \<and>
   resolve (Map.empty :: unit registry) ''reports'' () = Inl UnknownDescriptor \<and>
   startServer \<lparr>env_Use = None, env_gorm_Open = None, env_ListenAndServe = None\<rparr> =
     Serving (map_of (registered :: (string \<times> unit Generator) list)) \<and>
   dom (map_of (registered :: (string \<times> unit Generator) list)) =
     set (map fst (registered :: (string \<times> unit Generator) list)) \<and>
   ''reports'' \<notin> set (map fst (registered :: (string \<times> unit Generator) list)) \<and>
   resolve (map_of registered) ''reports'' () = Inl UnknownDescriptor \<and>
   distinct (map fst (registered :: (string \<times> unit Generator) list))"
proof -
  let ?env = "\<lparr>env_Use = None, env_gorm_Open = None, env_ListenAndServe = None\<rparr>"
  let ?r = "registered :: (string \<times> unit Generator) list"
  have h1: "(Map.empty :: unit registry) ''reports'' = None" by simp
  have h2: "startServer ?env = Serving (map_of ?r)"
    by (rule startServer_undisturbed) simp_all
  have h3: "''reports'' \<notin> set (map fst ?r)"
    by (simp add: registered_names)
  from C7_lookup_fails_closed [of "Map.empty :: unit registry" "''reports''" "()" ?env "map_of ?r"]
    h1 h2 h3
  show ?thesis by blast
qed

subsection \<open>Persistence of transformed form fields\<close>

lemma users_role_field:
  "FindByFieldName (tbl_Form (GetUserTable ctx)) ''role'' =
     Some \<lparr>fld_Head = zh_CustomField, fld_Field = ''role'', fld_TypeName = db_Varchar,
           fld_FormType = form_Text, fld_NotAllowEdit = False, fld_NotAllowAdd = False,
           fld_Default = [], fld_EnableFileUpload = False,
           fld_PostFilterFn = Some GetUserTable_role_PostFilterFn\<rparr>"
  by (simp add: FindByFieldName_def GetUserTable_def Let_def panel_defs)

text \<open>
  C8: a form field whose post-submit transform returns the empty string is not persisted; the
  value the transform returns decides, and a field without a transform is persisted as
  submitted. The post-submit filter of the \<open>role\<close> form field of the users table returns the
  empty string for every submitted value, so that field is never persisted.
\<close>

theorem C8_empty_transform_not_persisted:
  "(fld_PostFilterFn f = Some fn \<and> snd (fn m) = GString [] \<longrightarrow> persist f m = NotPersisted) \<and>
   (fld_PostFilterFn f = Some fn \<and> snd (fn m) \<noteq> GString [] \<longrightarrow>
      persist f m = PersistTransformed (snd (fn m))) \<and>
   (fld_PostFilterFn f = None \<longrightarrow> persist f m = PersistSubmitted (pfm_Value m)) \<and>
   (\<exists>role. FindByFieldName (tbl_Form (GetUserTable ctx)) ''role'' = Some role \<and>
      fld_PostFilterFn role = Some GetUserTable_role_PostFilterFn \<and>
      snd (GetUserTable_role_PostFilterFn value) = GString [] \<and>
      persist role value = NotPersisted)"
  by (simp add: persist_def users_role_field GetUserTable_role_PostFilterFn_def)

theorem C8_empty_transform_not_persisted_witness:
  "fld_PostFilterFn
     \<lparr>fld_Head = zh_CustomField, fld_Field = ''role'', fld_TypeName = db_Varchar,
      fld_FormType = form_Text, fld_NotAllowEdit = False, fld_NotAllowAdd = False,
      fld_Default = [], fld_EnableFileUpload = False,
      fld_PostFilterFn = Some GetUserTable_role_PostFilterFn\<rparr> =
     Some GetUserTable_role_PostFilterFn \<and>
   snd (GetUserTable_role_PostFilterFn
          \<lparr>pfm_ID = ''7'', pfm_Value = [''admin''], pfm_Row = []\<rparr>) = GString [] \<and>
   persist
     \<lparr>fld_Head = zh_CustomField, fld_Field = ''role'', fld_TypeName = db_Varchar,
      fld_FormType = form_Text, fld_NotAllowEdit = False, fld_NotAllowAdd = False,
      fld_Default = [], fld_EnableFileUpload = False,
      fld_PostFilterFn = Some GetUserTable_role_PostFilterFn\<rparr>
     \<lparr>pfm_ID = ''7'', pfm_Value = [''admin''], pfm_Row = []\<rparr> = NotPersisted"
  using C8_empty_transform_not_persisted
          [of "\<lparr>fld_Head = zh_CustomField, fld_Field = ''role'', fld_TypeName = db_Varchar,
                fld_FormType = form_Text, fld_NotAllowEdit = False, fld_NotAllowAdd = False,
                fld_Default = [], fld_EnableFileUpload = False,
                fld_PostFilterFn = Some GetUserTable_role_PostFilterFn\<rparr>"
              GetUserTable_role_PostFilterFn
              "\<lparr>pfm_ID = ''7'', pfm_Value = [''admin''], pfm_Row = []\<rparr>" "()"
              "\<lparr>pfm_ID = ''7'', pfm_Value = [''admin''], pfm_Row = []\<rparr>"]
  by (simp add: GetUserTable_role_PostFilterFn_def)

end
